theory Spec2Isabelle
  imports Main "HOL-Library.Word"
begin

section \<open>Python values, exceptions and the library operations the engine calls\<close>

text \<open>
  The evaluation context and the operand of a condition are JSON-like Python values.
  A float is kept as its IEEE-754 bit pattern: no arithmetic on it is modelled.
  A dict is an association list read with \<open>map_of\<close> (Python's \<open>dict.get\<close>).
\<close>

type_synonym pyfloat = "64 word"

datatype pyval =
    PNone
  | PBool bool
  | PInt int
  | PFloat pyfloat
  | PStr string
  | PList "pyval list"
  | PDict "(string \<times> pyval) list"

text \<open>The exceptions that the library calls of \<open>utils.py\<close> can raise.\<close>

datatype exn = ValueError | TypeError | ReError | OverflowError

text \<open>
  Python's own operations on values are parameters of the model: \<open>==\<close>, \<open>in\<close>,
  \<open>\<le>\<close>, \<open>float()\<close>, the comparison of two floats, \<open>str()\<close>, and \<open>re.match\<close>
  on the patterns that the fragment below does not cover. Each one that can raise returns
  a sum, \<open>Inl\<close> the exception.
\<close>

record pyops =
  py_eq :: "pyval \<Rightarrow> pyval \<Rightarrow> bool"
  py_contains :: "pyval \<Rightarrow> pyval \<Rightarrow> exn + bool"
  py_le :: "pyval \<Rightarrow> pyval \<Rightarrow> exn + bool"
  py_float :: "pyval \<Rightarrow> exn + pyfloat"
  float_gt :: "pyfloat \<Rightarrow> pyfloat \<Rightarrow> bool"
  float_lt :: "pyfloat \<Rightarrow> pyfloat \<Rightarrow> bool"
  py_str :: "pyval \<Rightarrow> string"
  re_ext :: "string \<Rightarrow> string \<Rightarrow> exn + bool"

subsection \<open>Strings\<close>

definition endswith :: "string \<Rightarrow> string \<Rightarrow> bool" where
  "endswith s suf = (length suf \<le> length s \<and> drop (length s - length suf) s = suf)"

definition startswith :: "string \<Rightarrow> string \<Rightarrow> bool" where
  "startswith s pre = (take (length pre) s = pre)"

text \<open>\<open>s.replace(c, new)\<close> for a one-character \<open>c\<close>, the only form the source uses.\<close>

definition replace_char :: "char \<Rightarrow> string \<Rightarrow> string \<Rightarrow> string" where
  "replace_char c new s = concat (map (\<lambda>x. if x = c then new else [x]) s)"

text \<open>\<open>s.split(c)\<close>: never empty, \<open>''''.split(c) = ['''']\<close>.\<close>

fun split_on :: "char \<Rightarrow> string \<Rightarrow> string list" where
  "split_on c [] = [[]]"
| "split_on c (x # xs) =
     (if x = c then [] # split_on c xs
      else (case split_on c xs of [] \<Rightarrow> [[x]] | y # ys \<Rightarrow> (x # y) # ys))"

subsection \<open>\<open>re.match\<close>\<close>

text \<open>
  \<open>re.match(pattern, s)\<close> is modelled on two classes of patterns.

  \<^item> Patterns made of ordinary characters, \<open>.\<close>, \<open>.*\<close>, an optional leading \<open>^\<close> and an
    optional trailing \<open>$\<close>: the match is computed. \<open>.\<close> matches any character but a
    newline, \<open>$\<close> matches at the end of the string or before a final newline, and the
    match is anchored at the start of the string only.
  \<^item> Patterns that open a character set \<open>[\<close> and contain no \<open>]\<close>, no backslash, no
    \<open>(\<close> and no \<open>{\<close>: the set is never closed and compiling raises \<open>re.error\<close>.

  Every other pattern is answered by the parameter \<open>re_ext\<close>.
\<close>

datatype re_tok = Lit char | AnyChar | AnyStar | Eos

definition newline :: char where
  "newline = CHR 0x0A"

definition backslash :: char where
  "backslash = CHR 0x5C"

definition re_special :: "char \<Rightarrow> bool" where
  "re_special c = (c \<in> set (''.^$*+?{}[]|()'' @ [backslash]))"

fun re_body :: "string \<Rightarrow> re_tok list option" where
  "re_body [] = Some []"
| "re_body [c] =
     (if c = CHR ''.'' then Some [AnyChar]
      else if c = CHR ''$'' then Some [Eos]
      else if re_special c then None
      else Some [Lit c])"
| "re_body (c # d # ds) =
     (if c = CHR ''.'' \<and> d = CHR ''*'' then map_option ((#) AnyStar) (re_body ds)
      else if c = CHR ''.'' then map_option ((#) AnyChar) (re_body (d # ds))
      else if re_special c then None
      else map_option ((#) (Lit c)) (re_body (d # ds)))"

definition re_parse :: "string \<Rightarrow> re_tok list option" where
  "re_parse pat =
     (case pat of [] \<Rightarrow> Some []
      | c # cs \<Rightarrow> if c = CHR ''^'' then re_body cs else re_body pat)"

fun re_run :: "re_tok list \<Rightarrow> string \<Rightarrow> bool" where
  "re_run [] s = True"
| "re_run (Lit c # ts) [] = False"
| "re_run (Lit c # ts) (x # xs) = (x = c \<and> re_run ts xs)"
| "re_run (AnyChar # ts) [] = False"
| "re_run (AnyChar # ts) (x # xs) = (x \<noteq> newline \<and> re_run ts xs)"
| "re_run (AnyStar # ts) [] = re_run ts []"
| "re_run (AnyStar # ts) (x # xs) =
     (re_run ts (x # xs) \<or> (x \<noteq> newline \<and> re_run (AnyStar # ts) xs))"
| "re_run (Eos # ts) s = ((s = [] \<or> s = [newline]) \<and> re_run ts s)"

definition re_unterminated_set :: "string \<Rightarrow> bool" where
  "re_unterminated_set pat =
     (CHR ''['' \<in> set pat \<and> CHR '']'' \<notin> set pat \<and> backslash \<notin> set pat
      \<and> CHR ''('' \<notin> set pat \<and> CHR ''{'' \<notin> set pat)"

definition re_match :: "pyops \<Rightarrow> string \<Rightarrow> string \<Rightarrow> exn + bool" where
  "re_match ops pat s =
     (case re_parse pat of
        Some toks \<Rightarrow> Inr (re_run toks s)
      | None \<Rightarrow> if re_unterminated_set pat then Inl ReError else re_ext ops pat s)"

section \<open>The resource matcher (\<open>PolicyEvaluator._resource_matches\<close>)\<close>

text \<open>The body of the loop, for one pattern.\<close>

definition pattern_matches :: "pyops \<Rightarrow> string \<Rightarrow> string \<Rightarrow> exn + bool" where
  "pattern_matches ops pattern requested_resource =
     (if pattern = requested_resource then Inr True
      else if endswith pattern '':*''
              \<and> startswith requested_resource (take (length pattern - 2) pattern)
        then Inr True
      else if (\<exists>c \<in> set ''*?[''. c \<in> set pattern) then
        re_match ops
          (''^'' @ replace_char (CHR ''?'') ''.'' (replace_char (CHR ''*'') ''.*'' pattern) @ ''$'')
          requested_resource
      else Inr False)"

fun resource_matches :: "pyops \<Rightarrow> string list \<Rightarrow> string \<Rightarrow> exn + bool" where
  "resource_matches ops [] requested_resource = Inr False"
| "resource_matches ops (pattern # rest) requested_resource =
     (case pattern_matches ops pattern requested_resource of
        Inl e \<Rightarrow> Inl e
      | Inr True \<Rightarrow> Inr True
      | Inr False \<Rightarrow> resource_matches ops rest requested_resource)"

section \<open>The condition matcher\<close>

record PolicyCondition =
  field :: string
  operator :: string
  cond_value :: pyval

text \<open>\<open>_get_nested_value\<close>: the loop over the keys of the dot path.\<close>

fun walk_keys :: "pyval \<Rightarrow> string list \<Rightarrow> pyval" where
  "walk_keys v [] = v"
| "walk_keys v (key # keys) =
     (case v of
        PDict d \<Rightarrow> walk_keys (case map_of d key of None \<Rightarrow> PNone | Some x \<Rightarrow> x) keys
      | _ \<Rightarrow> PNone)"

definition get_nested_value :: "pyval \<Rightarrow> string \<Rightarrow> pyval" where
  "get_nested_value data path = walk_keys data (split_on (CHR ''.'') path)"

definition is_str_or_list :: "pyval \<Rightarrow> bool" where
  "is_str_or_list v = (case v of PStr _ \<Rightarrow> True | PList _ \<Rightarrow> True | _ \<Rightarrow> False)"

definition is_list :: "pyval \<Rightarrow> bool" where
  "is_list v = (case v of PList _ \<Rightarrow> True | _ \<Rightarrow> False)"

definition negate :: "exn + bool \<Rightarrow> exn + bool" where
  "negate r = (case r of Inl e \<Rightarrow> Inl e | Inr b \<Rightarrow> Inr (\<not> b))"

text \<open>The \<open>try\<close> block of \<open>_evaluate_operator\<close>, with what it raises.\<close>

definition operator_body :: "pyops \<Rightarrow> string \<Rightarrow> pyval \<Rightarrow> pyval \<Rightarrow> exn + bool" where
  "operator_body ops opr left right =
     (if opr = ''eq'' then Inr (py_eq ops left right)
      else if opr = ''neq'' then Inr (\<not> py_eq ops left right)
      else if opr = ''gt'' then
        (case py_float ops left of Inl e \<Rightarrow> Inl e
         | Inr a \<Rightarrow> (case py_float ops right of Inl e \<Rightarrow> Inl e
                    | Inr b \<Rightarrow> Inr (float_gt ops a b)))
      else if opr = ''lt'' then
        (case py_float ops left of Inl e \<Rightarrow> Inl e
         | Inr a \<Rightarrow> (case py_float ops right of Inl e \<Rightarrow> Inl e
                    | Inr b \<Rightarrow> Inr (float_lt ops a b)))
      else if opr = ''contains'' then
        (if is_str_or_list left then py_contains ops left right else Inr False)
      else if opr = ''not_contains'' then
        (if is_str_or_list left then negate (py_contains ops left right) else Inr True)
      else if opr = ''in'' then
        (if is_list right then py_contains ops right left else Inr False)
      else if opr = ''not_in'' then
        (if is_list right then negate (py_contains ops right left) else Inr True)
      else if opr = ''between'' then
        (case right of
           PList [lo, hi] \<Rightarrow>
             (case py_le ops lo left of Inl e \<Rightarrow> Inl e
              | Inr False \<Rightarrow> Inr False
              | Inr True \<Rightarrow> py_le ops left hi)
         | _ \<Rightarrow> Inr False)
      else if opr = ''regex'' then
        (case right of
           PStr pat \<Rightarrow> re_match ops pat (py_str ops left)
         | _ \<Rightarrow> Inl TypeError)
      else Inr False)"

text \<open>\<open>except (ValueError, TypeError): return False\<close>; any other exception goes on.\<close>

definition evaluate_operator :: "pyops \<Rightarrow> string \<Rightarrow> pyval \<Rightarrow> pyval \<Rightarrow> exn + bool" where
  "evaluate_operator ops opr left right =
     (case operator_body ops opr left right of
        Inl ValueError \<Rightarrow> Inr False
      | Inl TypeError \<Rightarrow> Inr False
      | Inl e \<Rightarrow> Inl e
      | Inr b \<Rightarrow> Inr b)"

text \<open>The body of the loop of \<open>_evaluate_conditions\<close>, for one condition.\<close>

definition condition_holds ::
  "pyops \<Rightarrow> (string \<times> pyval) list \<Rightarrow> PolicyCondition \<Rightarrow> exn + bool" where
  "condition_holds ops context c =
     (let v = get_nested_value (PDict context) (field c)
      in if v = PNone then Inr False
         else evaluate_operator ops (operator c) v (cond_value c))"

fun conditions_loop ::
  "pyops \<Rightarrow> PolicyCondition list \<Rightarrow> (string \<times> pyval) list \<Rightarrow> exn + bool" where
  "conditions_loop ops [] context = Inr True"
| "conditions_loop ops (c # cs) context =
     (case condition_holds ops context c of
        Inl e \<Rightarrow> Inl e
      | Inr False \<Rightarrow> Inr False
      | Inr True \<Rightarrow> conditions_loop ops cs context)"

section \<open>The data model (\<open>models.py\<close>)\<close>

datatype PolicyEffect = ALLOW | DENY | AUDIT | ESCALATE

text \<open>
  A \<open>Policy\<close> row with its many-to-many relations read as lists: the conditions, the ids
  of the roles and the ids of the agents assigned to it. Timestamps are microseconds.
\<close>

record Policy =
  pid :: nat
  name :: string
  resources :: "string list"
  effect :: PolicyEffect
  conditions :: "PolicyCondition list"
  roles :: "nat list"
  agents :: "nat list"
  priority :: int
  valid_from :: "int option"
  valid_until :: "int option"
  max_calls :: "int option"
  calls_made :: int
  is_active :: bool

record Agent =
  agent_id :: nat
  agent_roles :: "nat list"

record PolicyAuditLog =
  log_agent :: nat
  log_policy :: "nat option"
  log_resource :: string
  log_action :: string
  request_data :: "(string \<times> pyval) list"
  decision :: PolicyEffect
  reason :: string
  execution_time_ms :: int

text \<open>The store: the policy table and the audit table, the latter in order of creation.\<close>

record store =
  policies :: "Policy list"
  audit_log :: "PolicyAuditLog list"

text \<open>
  \<open>Policy.is_valid_now\<close>, with the reading of the clock as an argument. A guard
  \<open>x and ...\<close> tests the truth value of \<open>x\<close>: a datetime is always true, an integer is
  true when it is not zero.
\<close>

definition is_valid_now :: "int \<Rightarrow> Policy \<Rightarrow> bool" where
  "is_valid_now now p =
     (if (case valid_from p of None \<Rightarrow> False | Some vf \<Rightarrow> now < vf) then False
      else if (case valid_until p of None \<Rightarrow> False | Some vu \<Rightarrow> now > vu) then False
      else if (case max_calls p of None \<Rightarrow> False | Some m \<Rightarrow> m \<noteq> 0 \<and> calls_made p \<ge> m)
        then False
      else True)"

text \<open>
  \<open>Policy.increment_calls\<close>: the object's counter goes up by one and
  \<open>save(update_fields=["calls_made"])\<close> writes the object's counter to its row.
\<close>

definition save_calls_made :: "Policy \<Rightarrow> store \<Rightarrow> store" where
  "save_calls_made p db =
     db\<lparr>policies := map (\<lambda>q. if pid q = pid p then q\<lparr>calls_made := calls_made p\<rparr> else q)
                        (policies db)\<rparr>"

definition increment_calls :: "Policy \<Rightarrow> store \<Rightarrow> Policy \<times> store" where
  "increment_calls p db =
     (let p' = p\<lparr>calls_made := calls_made p + 1\<rparr> in (p', save_calls_made p' db))"

section \<open>The policy resolver (\<open>PolicyEvaluator._get_applicable_policies\<close>)\<close>

record PolicyEvaluator =
  agent :: Agent
  applicable_policies :: "Policy list"

text \<open>The two querysets, as predicates on a row.\<close>

definition targeted :: "Agent \<Rightarrow> Policy \<Rightarrow> bool" where
  "targeted a p =
     (is_active p \<and> (agent_id a \<in> set (agents p) \<or> (\<exists>r \<in> set (roles p). r \<in> set (agent_roles a))))"

definition global_policies :: "Policy \<Rightarrow> bool" where
  "global_policies p = (is_active p \<and> \<not> (agents p \<noteq> []) \<and> \<not> (roles p \<noteq> []))"

text \<open>
  \<open>(targeted | global_policies).distinct().order_by("-priority")\<close>: every row of the
  union once, by descending priority. The order among equal priorities is the store's
  (the source leaves it to the database).
\<close>

definition candidate_policies :: "Agent \<Rightarrow> store \<Rightarrow> Policy list" where
  "candidate_policies a db =
     sort_key (\<lambda>p. - priority p) (filter (\<lambda>p. targeted a p \<or> global_policies p) (policies db))"

text \<open>
  \<open>is_valid_now\<close> reads the clock once for each policy it is called on: \<open>now_of p\<close> is
  that reading.
\<close>

definition get_applicable_policies :: "(Policy \<Rightarrow> int) \<Rightarrow> Agent \<Rightarrow> store \<Rightarrow> Policy list" where
  "get_applicable_policies now_of a db =
     filter (\<lambda>p. is_valid_now (now_of p) p) (candidate_policies a db)"

definition PolicyEvaluator_init :: "(Policy \<Rightarrow> int) \<Rightarrow> Agent \<Rightarrow> store \<Rightarrow> PolicyEvaluator" where
  "PolicyEvaluator_init now_of a db =
     \<lparr>agent = a, applicable_policies = get_applicable_policies now_of a db\<rparr>"

section \<open>The decision engine (\<open>PolicyEvaluator.evaluate\<close>)\<close>

definition evaluate_conditions ::
  "pyops \<Rightarrow> Policy \<Rightarrow> (string \<times> pyval) list \<Rightarrow> exn + bool" where
  "evaluate_conditions ops policy context =
     (if conditions policy = [] then Inr True
      else conditions_loop ops (conditions policy) context)"

type_synonym verdict = "PolicyEffect \<times> Policy option \<times> string"

definition effect_str :: "PolicyEffect \<Rightarrow> string" where
  "effect_str e =
     (case e of ALLOW \<Rightarrow> ''ALLOW'' | DENY \<Rightarrow> ''DENY'' | AUDIT \<Rightarrow> ''AUDIT''
      | ESCALATE \<Rightarrow> ''ESCALATE'')"

definition default_reason :: string where
  "default_reason = ''No applicable policy found''"

definition applied_reason :: "Policy \<Rightarrow> string" where
  "applied_reason policy =
     ''Policy '' @ [CHR 0x27] @ name policy @ [CHR 0x27] @ '' applied with effect ''
       @ effect_str (effect policy)"

text \<open>The \<open>for\<close> loop over \<open>self.applicable_policies\<close>, on the running triple.\<close>

fun evaluate_loop ::
  "pyops \<Rightarrow> Policy list \<Rightarrow> string \<Rightarrow> (string \<times> pyval) list \<Rightarrow> verdict \<Rightarrow> exn + verdict" where
  "evaluate_loop ops [] resource context run = Inr run"
| "evaluate_loop ops (policy # rest) resource context run =
     (case resource_matches ops (resources policy) resource of
        Inl e \<Rightarrow> Inl e
      | Inr False \<Rightarrow> evaluate_loop ops rest resource context run
      | Inr True \<Rightarrow>
          (case evaluate_conditions ops policy context of
             Inl e \<Rightarrow> Inl e
           | Inr False \<Rightarrow> evaluate_loop ops rest resource context run
           | Inr True \<Rightarrow>
               (if effect policy = DENY
                then Inr (effect policy, Some policy, applied_reason policy)
                else evaluate_loop ops rest resource context
                       (effect policy, Some policy, applied_reason policy))))"

text \<open>
  \<open>(timezone.now() - start_time).microseconds\<close> is the microseconds field of the
  normalised timedelta, between 0 and 999999. \<open>int(m / 1000)\<close> on such an \<open>m\<close> is
  \<open>m div 1000\<close>: the float quotient of an integer below \<open>10\<^sup>6\<close> by 1000 never
  rounds up to the next integer.
\<close>

definition timedelta_microseconds :: "int \<Rightarrow> int" where
  "timedelta_microseconds d = d mod 1000000"

definition elapsed_ms :: "int \<Rightarrow> int \<Rightarrow> int" where
  "elapsed_ms start_time end_time = timedelta_microseconds (end_time - start_time) div 1000"

definition log_decision ::
  "Agent \<Rightarrow> string \<Rightarrow> string \<Rightarrow> PolicyEffect \<Rightarrow> string \<Rightarrow> int \<Rightarrow> Policy option
     \<Rightarrow> (string \<times> pyval) list \<Rightarrow> store \<Rightarrow> store" where
  "log_decision a resource action dec rsn ms policy req db =
     db\<lparr>audit_log := audit_log db @
        [\<lparr>log_agent = agent_id a, log_policy = map_option pid policy, log_resource = resource,
          log_action = action, request_data = req, decision = dec, reason = rsn,
          execution_time_ms = ms\<rparr>]\<rparr>"

text \<open>
  \<open>evaluate\<close>, from the two readings of the clock (before and after the loop), the
  evaluator and the store, to what it returns or raises, the evaluator and the store
  afterwards. The context is \<open>None\<close> when the caller gives none, and \<open>context or {}\<close>
  reads it. The policy object that is returned is the one whose counter
  \<open>increment_calls\<close> has just raised; the same object sits in the evaluator's list.
\<close>

definition or_empty :: "(string \<times> pyval) list option \<Rightarrow> (string \<times> pyval) list" where
  "or_empty context = (case context of None \<Rightarrow> [] | Some c \<Rightarrow> c)"

definition evaluate ::
  "pyops \<Rightarrow> PolicyEvaluator \<Rightarrow> string \<Rightarrow> string \<Rightarrow> (string \<times> pyval) list option
     \<Rightarrow> int \<Rightarrow> int \<Rightarrow> store \<Rightarrow> (exn + verdict) \<times> PolicyEvaluator \<times> store" where
  "evaluate ops ev resource action context start_time end_time db =
     (let ctx = or_empty context in
      case evaluate_loop ops (applicable_policies ev) resource ctx (DENY, None, default_reason) of
        Inl e \<Rightarrow> (Inl e, ev, db)
      | Inr (dec, applying_policy, rsn) \<Rightarrow>
          (let db1 = log_decision (agent ev) resource action dec rsn
                       (elapsed_ms start_time end_time) applying_policy ctx db
           in case applying_policy of
                None \<Rightarrow> (Inr (dec, None, rsn), ev, db1)
              | Some p \<Rightarrow>
                  if dec = ALLOW \<or> dec = DENY then
                    (let (p', db2) = increment_calls p db1
                     in (Inr (dec, Some p', rsn),
                         ev\<lparr>applicable_policies :=
                              map (\<lambda>q. if pid q = pid p then p' else q) (applicable_policies ev)\<rparr>,
                         db2))
                  else (Inr (dec, Some p, rsn), ev, db1)))"

section \<open>The decision procedure in the words of the specification\<close>

text \<open>
  A policy applies when its resource patterns match the resource and its conditions all
  hold.
\<close>

definition applies :: "pyops \<Rightarrow> string \<Rightarrow> (string \<times> pyval) list \<Rightarrow> Policy \<Rightarrow> bool" where
  "applies ops resource context p =
     (resource_matches ops (resources p) resource = Inr True
      \<and> evaluate_conditions ops p context = Inr True)"

text \<open>
  The specification's iteration: go through the policies in order with a running triple;
  each applying policy overwrites the triple with its own effect; once an applying policy's
  effect is \<open>DENY\<close> the iteration has stopped and nothing changes any more.
\<close>

definition overwrite :: "Policy \<Rightarrow> verdict" where
  "overwrite p = (effect p, Some p, applied_reason p)"

definition spec_step :: "(Policy \<Rightarrow> bool) \<Rightarrow> bool \<times> verdict \<Rightarrow> Policy \<Rightarrow> bool \<times> verdict" where
  "spec_step app st p =
     (if fst st \<or> \<not> app p then st else (effect p = DENY, overwrite p))"

definition spec_decision :: "(Policy \<Rightarrow> bool) \<Rightarrow> Policy list \<Rightarrow> verdict" where
  "spec_decision app ps = snd (foldl (spec_step app) (False, (DENY, None, default_reason)) ps)"

text \<open>
  What the caller holds after the call: the policy of the final triple is an object, and
  its counter has gone up when the decision is \<open>ALLOW\<close> or \<open>DENY\<close>.
\<close>

definition counted :: "verdict \<Rightarrow> verdict" where
  "counted v =
     (case v of (d, m, r) \<Rightarrow>
        (d, map_option (\<lambda>p. if d = ALLOW \<or> d = DENY then p\<lparr>calls_made := calls_made p + 1\<rparr> else p) m,
         r))"

text \<open>
  The evaluator's policy objects carry the counters of their rows: true of an evaluator
  just built on the store, and kept by its own calls of \<open>evaluate\<close>.
\<close>

definition in_sync :: "PolicyEvaluator \<Rightarrow> store \<Rightarrow> bool" where
  "in_sync ev db =
     (\<forall>p \<in> set (applicable_policies ev). \<forall>q \<in> set (policies db).
        pid q = pid p \<longrightarrow> calls_made q = calls_made p)"

section \<open>Concrete policies, agents and stores\<close>

text \<open>
  An environment for the closed examples. None of them reaches one of these operations:
  the examples match resources literally or through the modelled patterns, and their
  conditions stop at the field lookup.
\<close>

definition example_ops :: pyops where
  "example_ops =
     \<lparr>py_eq = (=), py_contains = (\<lambda>_ _. Inl TypeError), py_le = (\<lambda>_ _. Inl TypeError),
      py_float = (\<lambda>_. Inl TypeError), float_gt = (\<lambda>_ _. False), float_lt = (\<lambda>_ _. False),
      py_str = (\<lambda>_. []), re_ext = (\<lambda>_ _. Inr False)\<rparr>"

definition example_agent :: Agent where
  "example_agent = \<lparr>agent_id = 1, agent_roles = [7]\<rparr>"

definition base_policy :: Policy where
  "base_policy =
     \<lparr>pid = 0, name = ''base'', resources = [''tool:crm''], effect = ALLOW, conditions = [],
      roles = [], agents = [], priority = 0, valid_from = None, valid_until = None,
      max_calls = None, calls_made = 0, is_active = True\<rparr>"

definition allow_policy :: Policy where
  "allow_policy = base_policy\<lparr>pid := 1, name := ''allow'', priority := 10\<rparr>"

definition deny_policy :: Policy where
  "deny_policy = base_policy\<lparr>pid := 2, name := ''deny'', effect := DENY, priority := 5\<rparr>"

definition audit_policy :: Policy where
  "audit_policy = base_policy\<lparr>pid := 3, name := ''audit'', effect := AUDIT\<rparr>"

definition scoped_policy :: Policy where
  "scoped_policy = base_policy\<lparr>pid := 4, name := ''scoped'', roles := [7]\<rparr>"

definition zero_quota_policy :: Policy where
  "zero_quota_policy = base_policy\<lparr>pid := 5, name := ''zero quota'', max_calls := Some 0\<rparr>"

definition open_set_policy :: Policy where
  "open_set_policy = base_policy\<lparr>pid := 6, name := ''open set'', resources := [''['']\<rparr>"

definition null_condition :: PolicyCondition where
  "null_condition = \<lparr>field = ''user.team'', operator = ''eq'', cond_value = PNone\<rparr>"

definition null_condition_policy :: Policy where
  "null_condition_policy =
     base_policy\<lparr>pid := 7, name := ''null field'', conditions := [null_condition]\<rparr>"

definition allow_low_policy :: Policy where
  "allow_low_policy = allow_policy\<lparr>priority := 5\<rparr>"

definition deny_high_policy :: Policy where
  "deny_high_policy = deny_policy\<lparr>priority := 10\<rparr>"

text \<open>A clock that reads 0 each time.\<close>

definition fixed_clock :: "Policy \<Rightarrow> int" where
  "fixed_clock p = 0"

definition store_of :: "Policy list \<Rightarrow> store" where
  "store_of ps = \<lparr>policies = ps, audit_log = []\<rparr>"

definition evaluator_of :: "Policy list \<Rightarrow> PolicyEvaluator" where
  "evaluator_of ps = \<lparr>agent = example_agent, applicable_policies = ps\<rparr>"

section \<open>Properties of the resolver\<close>

lemmas example_defs =
  example_ops_def example_agent_def base_policy_def allow_policy_def deny_policy_def
  audit_policy_def scoped_policy_def zero_quota_policy_def open_set_policy_def
  null_condition_def null_condition_policy_def allow_low_policy_def deny_high_policy_def
  fixed_clock_def store_of_def evaluator_of_def

lemma candidate_policies_iff:
  "p \<in> set (candidate_policies a db) \<longleftrightarrow>
     p \<in> set (policies db) \<and> is_active p
     \<and> (agent_id a \<in> set (agents p) \<or> (\<exists>r \<in> set (roles p). r \<in> set (agent_roles a))
        \<or> (agents p = [] \<and> roles p = []))"
  by (auto simp: candidate_policies_def targeted_def global_policies_def)

text \<open>
  What the post-filter does guarantee: a resolved policy is active, inside its validity
  window, and under its quota unless the quota is zero.
\<close>

lemma resolved_policy_valid:
  assumes "p \<in> set (get_applicable_policies now_of a db)"
  shows "is_active p"
    and "valid_from p = None \<or> now_of p \<ge> the (valid_from p)"
    and "valid_until p = None \<or> now_of p \<le> the (valid_until p)"
    and "max_calls p = None \<or> max_calls p = Some 0 \<or> calls_made p < the (max_calls p)"
  using assms
  by (auto simp: get_applicable_policies_def candidate_policies_iff is_valid_now_def
      split: option.splits if_splits)

text \<open>
  C3 (fails in the code). The claim: no resolved policy has \<open>maxCalls\<close> set and
  \<open>callsMade \<ge> maxCalls\<close>, for any set value of \<open>maxCalls\<close>, 0 included. The guard
  \<open>if self.max_calls and ...\<close> is false for \<open>max_calls = 0\<close>, so an active global policy
  with \<open>max_calls = 0\<close> and \<open>calls_made = 0\<close> is resolved although its quota is used up.
\<close>

theorem C3_zero_quota_is_resolved:
  "max_calls zero_quota_policy = Some 0
   \<and> calls_made zero_quota_policy \<ge> the (max_calls zero_quota_policy)
   \<and> get_applicable_policies now_of example_agent (store_of [zero_quota_policy])
       = [zero_quota_policy]"
  by (simp add: get_applicable_policies_def candidate_policies_def targeted_def
      global_policies_def is_valid_now_def example_defs)

text \<open>
  C5. An active policy \<open>p\<close> of the store with no agent and no role assigned is a
  candidate for every subject \<open>a\<close>; a candidate \<open>q\<close> with an agent or a role assigned
  names the subject among its agents or one of the subject's roles among its roles.
\<close>

theorem C5_candidates:
  "(p \<in> set (policies db) \<and> is_active p \<and> agents p = [] \<and> roles p = []
      \<longrightarrow> p \<in> set (candidate_policies a db))
   \<and> (q \<in> set (candidate_policies a db) \<and> (agents q \<noteq> [] \<or> roles q \<noteq> [])
      \<longrightarrow> agent_id a \<in> set (agents q) \<or> (\<exists>r \<in> set (roles q). r \<in> set (agent_roles a)))"
  by (auto simp: candidate_policies_iff)

theorem C5_candidates_witness:
  "(base_policy \<in> set (policies (store_of [base_policy, scoped_policy]))
     \<and> is_active base_policy \<and> agents base_policy = [] \<and> roles base_policy = [])
   \<and> base_policy \<in> set (candidate_policies example_agent (store_of [base_policy, scoped_policy]))
   \<and> scoped_policy \<in> set (candidate_policies example_agent (store_of [base_policy, scoped_policy]))
   \<and> roles scoped_policy = [7]
   \<and> (agent_id example_agent \<in> set (agents scoped_policy)
       \<or> (\<exists>r \<in> set (roles scoped_policy). r \<in> set (agent_roles example_agent)))"
  using C5_candidates [of base_policy "store_of [base_policy, scoped_policy]" example_agent
      scoped_policy]
  by (simp add: candidate_policies_def targeted_def global_policies_def example_defs)

section \<open>Properties of the resource matcher\<close>













section \<open>Properties of the condition matcher\<close>

text \<open>
  C6 (fails in the code). The claim: no operand makes the evaluation of one condition
  raise. \<open>re.error\<close> is neither a \<open>ValueError\<close> nor a \<open>TypeError\<close>: with the operator
  \<open>regex\<close> and the pattern \<open>[\<close>, which opens a character set and never closes it, the
  exception leaves \<open>_evaluate_operator\<close>.
\<close>

theorem C6_regex_error_escapes:
  "evaluate_operator ops ''regex'' (PStr ''abc'') (PStr ''['') = Inl ReError"
  by (simp add: evaluate_operator_def operator_body_def re_match_def re_parse_def
      re_special_def re_unterminated_set_def backslash_def)

lemma conditions_loop_null:
  "c \<in> set cs \<Longrightarrow> condition_holds ops context c = Inr False
     \<Longrightarrow> conditions_loop ops cs context \<noteq> Inr True"
  by (induction cs) (auto split: sum.splits bool.splits)

text \<open>
  C10. When the lookup of a condition's field in the context yields \<open>None\<close>, whatever
  the reason, the condition does not match, whatever its operator and operand, and no
  policy that has this condition has its conditions hold.
\<close>

theorem C10_null_field_never_matches:
  "get_nested_value (PDict context) (field c) = PNone \<longrightarrow>
     condition_holds ops context c = Inr False
     \<and> (c \<in> set (conditions p) \<longrightarrow> evaluate_conditions ops p context \<noteq> Inr True)"
proof
  assume null: "get_nested_value (PDict context) (field c) = PNone"
  then have fails: "condition_holds ops context c = Inr False"
    by (simp add: condition_holds_def)
  moreover have "evaluate_conditions ops p context \<noteq> Inr True" if "c \<in> set (conditions p)"
    using that conditions_loop_null [OF that fails]
    by (auto simp: evaluate_conditions_def)
  ultimately show "condition_holds ops context c = Inr False
     \<and> (c \<in> set (conditions p) \<longrightarrow> evaluate_conditions ops p context \<noteq> Inr True)"
    by blast
qed

text \<open>
  The witness has the field present with the value \<open>None\<close> and the condition
  \<open>eq None\<close>, whose comparison would hold if it were reached.
\<close>

theorem C10_null_field_never_matches_witness:
  "get_nested_value (PDict [(''user'', PDict [(''team'', PNone)])]) (field null_condition) = PNone
   \<and> py_eq example_ops PNone (cond_value null_condition)
   \<and> condition_holds example_ops [(''user'', PDict [(''team'', PNone)])] null_condition = Inr False
   \<and> null_condition \<in> set (conditions null_condition_policy)
   \<and> evaluate_conditions example_ops null_condition_policy [(''user'', PDict [(''team'', PNone)])]
       \<noteq> Inr True"
  using C10_null_field_never_matches [of "[(''user'', PDict [(''team'', PNone)])]" null_condition
      example_ops null_condition_policy]
  by (simp add: get_nested_value_def example_defs)

section \<open>Properties of the decision engine\<close>

text \<open>
  C9 (fails in the code). The claim: the stored duration is the whole elapsed time in
  milliseconds, also for an evaluation of a second or more. The code reads the
  \<open>microseconds\<close> field of the timedelta, which leaves the whole seconds out: an
  evaluation of 1.5 seconds is stored as 500 ms.
\<close>

theorem C9_duration_drops_whole_seconds:
  "map execution_time_ms
     (audit_log (snd (snd (evaluate ops (evaluator_of []) resource action context 0 1500000
                             (store_of []))))) = [500]"
  by (simp add: evaluate_def evaluator_of_def store_of_def log_decision_def elapsed_ms_def
      timedelta_microseconds_def)

lemma elapsed_ms_below_one_second:
  "0 \<le> e - s \<Longrightarrow> e - s < 1000000 \<Longrightarrow> elapsed_ms s e = (e - s) div 1000"
  by (simp add: elapsed_ms_def timedelta_microseconds_def)

lemma spec_stopped: "foldl (spec_step app) (True, run) ps = (True, run)"
  by (induction ps) (simp_all add: spec_step_def)

lemma spec_step_running:
  "spec_step app (False, run) p =
     (if app p then (effect p = DENY, overwrite p) else (False, run))"
  by (simp add: spec_step_def)

lemma loop_refines:
  "evaluate_loop ops ps resource context run = Inr v
     \<Longrightarrow> v = snd (foldl (spec_step (applies ops resource context)) (False, run) ps)"
proof (induction ps arbitrary: run)
  case Nil
  then show ?case by simp
next
  case (Cons p ps)
  show ?case
  proof (cases "applies ops resource context p")
    case True
    then have m: "resource_matches ops (resources p) resource = Inr True"
      and c: "evaluate_conditions ops p context = Inr True"
      by (simp_all add: applies_def)
    show ?thesis
    proof (cases "effect p = DENY")
      case True
      with Cons.prems m c have "v = overwrite p" by (simp add: overwrite_def)
      with True \<open>applies ops resource context p\<close> show ?thesis
        by (simp add: spec_step_running spec_stopped)
    next
      case False
      with Cons.prems m c
      have "evaluate_loop ops ps resource context (overwrite p) = Inr v"
        by (simp add: overwrite_def)
      from Cons.IH [OF this] False \<open>applies ops resource context p\<close> show ?thesis
        by (simp add: spec_step_running)
    qed
  next
    case False
    with Cons.prems have "evaluate_loop ops ps resource context run = Inr v"
      by (auto simp: applies_def split: sum.splits bool.splits)
    from Cons.IH [OF this] False show ?thesis
      by (simp add: spec_step_running)
  qed
qed

lemma loop_returns:
  "\<forall>p \<in> set ps. \<forall>x. resource_matches ops (resources p) resource \<noteq> Inl x
        \<and> evaluate_conditions ops p context \<noteq> Inl x
     \<Longrightarrow> \<exists>v. evaluate_loop ops ps resource context run = Inr v"
  by (induction ps arbitrary: run) (auto split: sum.splits bool.splits)


lemma evaluate_result:
  "fst (evaluate ops ev resource action context s e db) =
     map_sum id counted
       (evaluate_loop ops (applicable_policies ev) resource (or_empty context)
          (DENY, None, default_reason))"
  by (auto simp: evaluate_def counted_def increment_calls_def Let_def
      split: sum.splits option.splits prod.splits)

lemma literal_pattern: "resource_matches ops (r # ps) r = Inr True"
  by (simp add: pattern_matches_def)

text \<open>
  C1. Whenever \<open>evaluate\<close> returns, it returns the triple that the specification's
  iteration computes: from \<open>DENY\<close> with the reason \<open>No applicable policy found\<close>
  (the literal of the source), each applying policy overwriting the triple, nothing
  changing after an applying \<open>DENY\<close>; the policy of the triple is returned with its
  counter as \<open>evaluate\<close> leaves it. It does return when no matcher raises on the
  resolved policies.
\<close>

theorem C1_evaluate_iterates:
  "(fst (evaluate ops ev resource action context s e db) = Inr v \<longrightarrow>
      v = counted (spec_decision (applies ops resource (or_empty context)) (applicable_policies ev)))
   \<and> ((\<forall>p \<in> set (applicable_policies ev). \<forall>x.
          resource_matches ops (resources p) resource \<noteq> Inl x
          \<and> evaluate_conditions ops p (or_empty context) \<noteq> Inl x) \<longrightarrow>
      fst (evaluate ops ev resource action context s e db) =
        Inr (counted (spec_decision (applies ops resource (or_empty context))
                        (applicable_policies ev))))"
proof -
  let ?loop = "evaluate_loop ops (applicable_policies ev) resource (or_empty context)
                 (DENY, None, default_reason)"
  let ?spec = "spec_decision (applies ops resource (or_empty context)) (applicable_policies ev)"
  have a: "v = counted ?spec" if "fst (evaluate ops ev resource action context s e db) = Inr v"
  proof -
    from that obtain w where w: "?loop = Inr w" and v: "v = counted w"
      by (auto simp: evaluate_result map_sum_def split: sum.splits)
    from loop_refines [OF w] v show ?thesis by (simp add: spec_decision_def)
  qed
  have b: "fst (evaluate ops ev resource action context s e db) = Inr (counted ?spec)"
    if "\<forall>p \<in> set (applicable_policies ev). \<forall>x.
          resource_matches ops (resources p) resource \<noteq> Inl x
          \<and> evaluate_conditions ops p (or_empty context) \<noteq> Inl x"
  proof -
    from loop_returns [OF that] obtain w where w: "?loop = Inr w" by blast
    from loop_refines [OF w] w show ?thesis
      by (simp add: evaluate_result spec_decision_def)
  qed
  from a b show ?thesis by blast
qed

text \<open>
  The witness: an \<open>ALLOW\<close>, an \<open>AUDIT\<close>, a \<open>DENY\<close> and one more \<open>ALLOW\<close> policy all
  apply; the \<open>DENY\<close> policy, third in order, is the one returned.
\<close>

lemma chain_applies: "applies example_ops ''tool:crm'' [] allow_policy"
    "applies example_ops ''tool:crm'' [] audit_policy"
    "applies example_ops ''tool:crm'' [] deny_policy"
    "applies example_ops ''tool:crm'' [] base_policy"
    by (simp_all add: applies_def evaluate_conditions_def pattern_matches_def example_defs)

lemma chain_effects: "effect allow_policy = ALLOW" "effect audit_policy = AUDIT"
    "effect deny_policy = DENY" "calls_made deny_policy = 0"
    by (simp_all add: example_defs)


lemma chain_quiet: "\<forall>p \<in> set (applicable_policies (evaluator_of [allow_policy, audit_policy, deny_policy, base_policy])). \<forall>x.
      resource_matches example_ops (resources p) ''tool:crm'' \<noteq> Inl x
      \<and> evaluate_conditions example_ops p (or_empty None) \<noteq> Inl x"
  using chain_applies by (simp add: applies_def evaluator_of_def or_empty_def)

lemma spec_step_applies:
  "app p \<Longrightarrow> foldl (spec_step app) (False, run) (p # ps) =
     foldl (spec_step app) (effect p = DENY, overwrite p) ps"
  by (simp add: spec_step_def)

lemma chain_spec: "spec_decision (applies example_ops ''tool:crm'' []) [allow_policy, audit_policy, deny_policy, base_policy]
      = overwrite deny_policy"
  unfolding spec_decision_def
  by (simp only: spec_step_applies chain_applies chain_effects PolicyEffect.distinct spec_stopped
      snd_conv refl)


lemma chain_counted: "counted (spec_decision (applies example_ops ''tool:crm'' (or_empty None))
        [allow_policy, audit_policy, deny_policy, base_policy])
      = (DENY, Some (deny_policy\<lparr>calls_made := 1\<rparr>), applied_reason deny_policy)"
  by (simp add: or_empty_def chain_spec counted_def overwrite_def chain_effects)

theorem C1_evaluate_iterates_witness:
  "fst (evaluate example_ops (evaluator_of [allow_policy, audit_policy, deny_policy, base_policy])
          ''tool:crm'' ''read'' None 0 0 (store_of []))
     = Inr (DENY, Some (deny_policy\<lparr>calls_made := 1\<rparr>), applied_reason deny_policy)
   \<and> counted (spec_decision (applies example_ops ''tool:crm'' (or_empty None))
                [allow_policy, audit_policy, deny_policy, base_policy])
     = (DENY, Some (deny_policy\<lparr>calls_made := 1\<rparr>), applied_reason deny_policy)"
proof -
  have ps: "applicable_policies (evaluator_of [allow_policy, audit_policy, deny_policy, base_policy])
      = [allow_policy, audit_policy, deny_policy, base_policy]"
    by (simp add: evaluator_of_def)
  from C1_evaluate_iterates [of example_ops
      "evaluator_of [allow_policy, audit_policy, deny_policy, base_policy]" "''tool:crm''"
      "''read''" None 0 0 "store_of []"] chain_quiet
  have "fst (evaluate example_ops (evaluator_of [allow_policy, audit_policy, deny_policy, base_policy])
          ''tool:crm'' ''read'' None 0 0 (store_of []))
     = Inr (counted (spec_decision (applies example_ops ''tool:crm'' (or_empty None))
          (applicable_policies (evaluator_of [allow_policy, audit_policy, deny_policy, base_policy]))))"
    by blast
  then show ?thesis
    by (simp only: ps chain_counted simp_thms)
qed

lemma two_policies_resolved:
  assumes "filter (\<lambda>p. targeted a p \<or> global_policies p) (policies db) = [pa, pd]
           \<or> filter (\<lambda>p. targeted a p \<or> global_policies p) (policies db) = [pd, pa]"
      and "is_valid_now (now_of pa) pa" "is_valid_now (now_of pd) pd"
      and "priority pa \<noteq> priority pd"
  shows "get_applicable_policies now_of a db
           = (if priority pa > priority pd then [pa, pd] else [pd, pa])"
  using assms by (auto simp: get_applicable_policies_def candidate_policies_def)

lemma deny_after_allow:
  assumes "effect pa = ALLOW" "effect pd = DENY" "conditions pa = []" "conditions pd = []"
      and "resource_matches ops (resources pa) resource = Inr True"
      and "resource_matches ops (resources pd) resource = Inr True"
  shows "evaluate_loop ops [pa, pd] resource context run = Inr (DENY, Some pd, applied_reason pd)"
    and "evaluate_loop ops [pd, pa] resource context run = Inr (DENY, Some pd, applied_reason pd)"
  using assms by (simp_all add: evaluate_conditions_def)

text \<open>
  C2 (amended). The claim has \<open>ALLOW\<close> returned when the \<open>ALLOW\<close> policy has priority
  10 and the \<open>DENY\<close> policy priority 5. The loop goes on after an applying \<open>ALLOW\<close> and
  stops at an applying \<open>DENY\<close>, so with exactly these two candidate policies, both valid,
  both matching the resource and without conditions, \<open>evaluate\<close> returns \<open>DENY\<close> in
  both orders of the priorities; the resolved list has the policy of priority 10 first.
\<close>

theorem C2_deny_wins_at_either_priority:
  assumes cands: "filter (\<lambda>p. targeted a p \<or> global_policies p) (policies db) = [pa, pd]
           \<or> filter (\<lambda>p. targeted a p \<or> global_policies p) (policies db) = [pd, pa]"
      and valid: "is_valid_now (now_of pa) pa" "is_valid_now (now_of pd) pd"
      and eff: "effect pa = ALLOW" "effect pd = DENY"
      and conds: "conditions pa = []" "conditions pd = []"
      and res: "resource_matches ops (resources pa) resource = Inr True"
        "resource_matches ops (resources pd) resource = Inr True"
      and prio: "(priority pa = 10 \<and> priority pd = 5) \<or> (priority pa = 5 \<and> priority pd = 10)"
  shows "applicable_policies (PolicyEvaluator_init now_of a db)
           = (if priority pa = 10 then [pa, pd] else [pd, pa])
         \<and> map_sum id fst (fst (evaluate ops (PolicyEvaluator_init now_of a db) resource action
                                   context s e db)) = Inr DENY"
proof -
  from prio have ne: "priority pa \<noteq> priority pd" by auto
  have order: "applicable_policies (PolicyEvaluator_init now_of a db)
           = (if priority pa = 10 then [pa, pd] else [pd, pa])"
    using two_policies_resolved [OF cands valid ne] prio
    by (auto simp: PolicyEvaluator_init_def)
  have "evaluate_loop ops (applicable_policies (PolicyEvaluator_init now_of a db)) resource
          (or_empty context) (DENY, None, default_reason) = Inr (DENY, Some pd, applied_reason pd)"
    using order deny_after_allow [OF eff conds res] by simp
  then have "map_sum id fst (fst (evaluate ops (PolicyEvaluator_init now_of a db) resource action
                                   context s e db)) = Inr DENY"
    by (simp add: evaluate_result counted_def)
  with order show ?thesis by simp
qed


lemma two_policy_stores:
  "filter (\<lambda>p. targeted example_agent p \<or> global_policies p)
      (policies (store_of [deny_policy, allow_policy])) = [deny_policy, allow_policy]"
  "filter (\<lambda>p. targeted example_agent p \<or> global_policies p)
      (policies (store_of [allow_low_policy, deny_high_policy])) = [allow_low_policy, deny_high_policy]"
  by (simp_all add: targeted_def global_policies_def example_defs)

lemma two_policy_facts:
  "is_valid_now (fixed_clock p) allow_policy" "is_valid_now (fixed_clock p) deny_policy"
  "is_valid_now (fixed_clock p) allow_low_policy" "is_valid_now (fixed_clock p) deny_high_policy"
  "effect allow_policy = ALLOW" "effect deny_policy = DENY"
  "effect allow_low_policy = ALLOW" "effect deny_high_policy = DENY"
  "conditions allow_policy = []" "conditions deny_policy = []"
  "conditions allow_low_policy = []" "conditions deny_high_policy = []"
  "resources allow_policy = [''tool:crm'']" "resources deny_policy = [''tool:crm'']"
  "resources allow_low_policy = [''tool:crm'']" "resources deny_high_policy = [''tool:crm'']"
  "priority allow_policy = 10" "priority deny_policy = 5"
  "priority allow_low_policy = 5" "priority deny_high_policy = 10"
  by (simp_all add: is_valid_now_def example_defs)

theorem C2_deny_wins_at_either_priority_witness:
  "priority allow_policy = 10 \<and> priority deny_policy = 5
   \<and> applicable_policies (PolicyEvaluator_init fixed_clock example_agent
        (store_of [deny_policy, allow_policy])) = [allow_policy, deny_policy]
   \<and> map_sum id fst (fst (evaluate example_ops
        (PolicyEvaluator_init fixed_clock example_agent (store_of [deny_policy, allow_policy]))
        ''tool:crm'' ''read'' None 0 0 (store_of [deny_policy, allow_policy]))) = Inr DENY
   \<and> priority allow_low_policy = 5 \<and> priority deny_high_policy = 10
   \<and> applicable_policies (PolicyEvaluator_init fixed_clock example_agent
        (store_of [allow_low_policy, deny_high_policy])) = [deny_high_policy, allow_low_policy]
   \<and> map_sum id fst (fst (evaluate example_ops
        (PolicyEvaluator_init fixed_clock example_agent (store_of [allow_low_policy, deny_high_policy]))
        ''tool:crm'' ''read'' None 0 0 (store_of [allow_low_policy, deny_high_policy]))) = Inr DENY"
proof -
  have hi: "filter (\<lambda>p. targeted example_agent p \<or> global_policies p)
              (policies (store_of [deny_policy, allow_policy])) = [allow_policy, deny_policy]
          \<or> filter (\<lambda>p. targeted example_agent p \<or> global_policies p)
              (policies (store_of [deny_policy, allow_policy])) = [deny_policy, allow_policy]"
    by (simp only: two_policy_stores simp_thms)
  have lo: "filter (\<lambda>p. targeted example_agent p \<or> global_policies p)
              (policies (store_of [allow_low_policy, deny_high_policy]))
               = [allow_low_policy, deny_high_policy]
          \<or> filter (\<lambda>p. targeted example_agent p \<or> global_policies p)
              (policies (store_of [allow_low_policy, deny_high_policy]))
               = [deny_high_policy, allow_low_policy]"
    by (simp only: two_policy_stores simp_thms)
  have res: "resource_matches example_ops [''tool:crm''] ''tool:crm'' = Inr True"
    by (rule literal_pattern)
  have p1: "(priority allow_policy = 10 \<and> priority deny_policy = 5)
          \<or> (priority allow_policy = 5 \<and> priority deny_policy = 10)"
    by (simp only: two_policy_facts simp_thms)
  have p2: "(priority allow_low_policy = 10 \<and> priority deny_high_policy = 5)
          \<or> (priority allow_low_policy = 5 \<and> priority deny_high_policy = 10)"
    by (simp only: two_policy_facts simp_thms)
  have a: "applicable_policies (PolicyEvaluator_init fixed_clock example_agent
        (store_of [deny_policy, allow_policy])) = (if priority allow_policy = 10 then [allow_policy, deny_policy] else [deny_policy, allow_policy])
     \<and> map_sum id fst (fst (evaluate example_ops
        (PolicyEvaluator_init fixed_clock example_agent (store_of [deny_policy, allow_policy]))
        ''tool:crm'' ''read'' None 0 0 (store_of [deny_policy, allow_policy]))) = Inr DENY"
    by (rule C2_deny_wins_at_either_priority [OF hi _ _ _ _ _ _ _ _ p1])
      (simp_all only: two_policy_facts res)
  have b: "applicable_policies (PolicyEvaluator_init fixed_clock example_agent
        (store_of [allow_low_policy, deny_high_policy])) = (if priority allow_low_policy = 10 then [allow_low_policy, deny_high_policy] else [deny_high_policy, allow_low_policy])
     \<and> map_sum id fst (fst (evaluate example_ops
        (PolicyEvaluator_init fixed_clock example_agent (store_of [allow_low_policy, deny_high_policy]))
        ''tool:crm'' ''read'' None 0 0 (store_of [allow_low_policy, deny_high_policy]))) = Inr DENY"
    by (rule C2_deny_wins_at_either_priority [OF lo _ _ _ _ _ _ _ _ p2])
      (simp_all only: two_policy_facts res)
  from a b show ?thesis by (simp add: two_policy_facts)
qed

text \<open>
  The claim as stated fails: \<open>ALLOW\<close> at priority 10 and \<open>DENY\<close> at priority 5 are
  resolved in this order, and the decision is \<open>DENY\<close>.
\<close>

theorem C2_allow_10_deny_5_is_denied:
  "priority allow_policy = 10 \<and> effect allow_policy = ALLOW
   \<and> priority deny_policy = 5 \<and> effect deny_policy = DENY
   \<and> get_applicable_policies fixed_clock example_agent (store_of [deny_policy, allow_policy])
       = [allow_policy, deny_policy]
   \<and> map_sum id fst (fst (evaluate example_ops
        (PolicyEvaluator_init fixed_clock example_agent (store_of [deny_policy, allow_policy]))
        ''tool:crm'' ''read'' None 0 0 (store_of [deny_policy, allow_policy]))) = Inr DENY
   \<and> map_sum id fst (fst (evaluate example_ops
        (PolicyEvaluator_init fixed_clock example_agent (store_of [deny_policy, allow_policy]))
        ''tool:crm'' ''read'' None 0 0 (store_of [deny_policy, allow_policy]))) \<noteq> Inr ALLOW"
proof -
  have hi: "filter (\<lambda>p. targeted example_agent p \<or> global_policies p)
              (policies (store_of [deny_policy, allow_policy])) = [allow_policy, deny_policy]
          \<or> filter (\<lambda>p. targeted example_agent p \<or> global_policies p)
              (policies (store_of [deny_policy, allow_policy])) = [deny_policy, allow_policy]"
    by (simp only: two_policy_stores simp_thms)
  have order: "get_applicable_policies fixed_clock example_agent (store_of [deny_policy, allow_policy])
       = [allow_policy, deny_policy]"
    using two_policies_resolved [OF hi, of fixed_clock] by (simp add: two_policy_facts)
  have "evaluate_loop example_ops [allow_policy, deny_policy] ''tool:crm'' (or_empty None)
          (DENY, None, default_reason) = Inr (DENY, Some deny_policy, applied_reason deny_policy)"
    by (rule deny_after_allow) (simp_all only: two_policy_facts literal_pattern)
  then have "map_sum id fst (fst (evaluate example_ops
        (PolicyEvaluator_init fixed_clock example_agent (store_of [deny_policy, allow_policy]))
        ''tool:crm'' ''read'' None 0 0 (store_of [deny_policy, allow_policy]))) = Inr DENY"
    by (simp add: evaluate_result counted_def PolicyEvaluator_init_def order)
  with order show ?thesis by (simp add: two_policy_facts)
qed




text \<open>
  An evaluator just built on a store whose primary keys are distinct carries the counters
  of its rows.
\<close>

lemma resolved_is_stored:
  "p \<in> set (get_applicable_policies now_of a db) \<Longrightarrow> p \<in> set (policies db)"
  by (simp add: get_applicable_policies_def candidate_policies_iff)

lemma in_sync_init:
  assumes "distinct (map pid (policies db))"
  shows "in_sync (PolicyEvaluator_init now_of a db) db"
  unfolding in_sync_def PolicyEvaluator_init_def
proof (intro ballI impI)
  fix p q
  assume "p \<in> set (applicable_policies \<lparr>agent = a, applicable_policies = get_applicable_policies now_of a db\<rparr>)"
    and q: "q \<in> set (policies db)" and same: "pid q = pid p"
  then have "p \<in> set (policies db)" by (simp add: resolved_is_stored)
  with assms q same have "q = p"
    by (meson distinct_map inj_onD)
  then show "calls_made q = calls_made p" by simp
qed



end
